theory Spec2Isabelle
  imports Main "HOL-Library.AList"
begin

section \<open>The todo-me Python client (docs/examples/python-client.py)\<close>

text \<open>
  The client is a thin layer over an HTTP library: every method builds one request,
  hands it to the transport, and unwraps the JSON envelope of the reply. The embedding
  keeps that shape. Python values are a datatype, dictionaries are association lists in
  insertion order, exceptions are the left summand of a sum type, the mutable session
  headers are a field of the client record that \<open>refresh_token\<close> returns updated, and
  the network is a function from the requests sent so far and the current request to a
  reply, together with the growing list of requests sent.
\<close>

subsection \<open>Python values\<close>

text \<open>
  The values that \<open>response.json()\<close> produces and that the client puts in query
  mappings and JSON bodies. Numbers are the integers; a dictionary lists its items in
  insertion order and is read with \<open>map_of\<close>.
\<close>

datatype pyval =
    PNone
  | PBool bool
  | PInt int
  | PStr string
  | PList "pyval list"
  | PDict "(string \<times> pyval) list"

text \<open>Truth value testing, as \<open>if x:\<close> and \<open>not x\<close> apply it.\<close>

fun truthy :: "pyval \<Rightarrow> bool" where
  "truthy PNone = False"
| "truthy (PBool b) = b"
| "truthy (PInt n) = (n \<noteq> 0)"
| "truthy (PStr s) = (s \<noteq> [])"
| "truthy (PList xs) = (xs \<noteq> [])"
| "truthy (PDict kvs) = (kvs \<noteq> [])"

text \<open>
  The exceptions the client can raise. \<open>TodoMeError\<close> carries the three attributes its
  constructor stores; \<open>details\<close> is \<open>PNone\<close> when it is not passed. \<open>TransportError\<close>
  stands for whatever the HTTP library raises (no connection, timeout, a body that is
  not JSON).
\<close>

datatype exn =
    TodoMeError (code: pyval) (message: pyval) (details: pyval)
  | KeyError string
  | TypeError
  | AttributeError
  | TransportError string

text \<open>\<open>d.get(k, default)\<close>: only a dictionary has the method.\<close>

fun py_get :: "pyval \<Rightarrow> string \<Rightarrow> pyval \<Rightarrow> exn + pyval" where
  "py_get (PDict kvs) k dflt = Inr (case map_of kvs k of None \<Rightarrow> dflt | Some v \<Rightarrow> v)"
| "py_get _ k dflt = Inl AttributeError"

text \<open>\<open>d[k]\<close> with a string key: a missing key raises, and so does a value that is
  not a dictionary.\<close>

fun py_subscript :: "pyval \<Rightarrow> string \<Rightarrow> exn + pyval" where
  "py_subscript (PDict kvs) k = (case map_of kvs k of None \<Rightarrow> Inl (KeyError k) | Some v \<Rightarrow> Inr v)"
| "py_subscript _ k = Inl TypeError"

text \<open>\<open>s.rstrip("/")\<close>, \<open>s.lstrip("/")\<close> and \<open>sep.join(xs)\<close>.\<close>

definition rstrip_slash :: "string \<Rightarrow> string" where
  "rstrip_slash s = rev (dropWhile (\<lambda>c. c = CHR ''/'') (rev s))"

definition lstrip_slash :: "string \<Rightarrow> string" where
  "lstrip_slash s = dropWhile (\<lambda>c. c = CHR ''/'') s"

fun join :: "string \<Rightarrow> string list \<Rightarrow> string" where
  "join sep [] = []"
| "join sep [x] = x"
| "join sep (x # y # ys) = x @ sep @ join sep (y # ys)"

text \<open>
  A replacement field of an f-string applies \<open>str\<close>; on a string that is the string
  itself. What \<open>str\<close> prints for the other values is the parameter \<open>str_of\<close>.
\<close>

fun format_value :: "(pyval \<Rightarrow> string) \<Rightarrow> pyval \<Rightarrow> string" where
  "format_value str_of (PStr s) = s"
| "format_value str_of v = str_of v"

subsection \<open>Requests, the network and the client\<close>

text \<open>
  One HTTP request as the client hands it to the library: method, URL, the headers the
  client set, and the \<open>params=\<close> and \<open>json=\<close> keyword arguments when given.
\<close>

record request =
  req_method :: string
  req_url :: string
  req_headers :: "(string \<times> string) list"
  req_params :: "(string \<times> pyval) list option"
  req_json :: "pyval option"

text \<open>
  What lies outside the file: the service, which answers a request (given the requests
  sent before it) with the parsed body or with an exception of the transport;
  \<open>datetime.isoformat\<close> on the caller's timestamps; and \<open>str\<close> on values that are not
  strings.
\<close>

record 'dt runtime =
  service :: "request list \<Rightarrow> request \<Rightarrow> exn + pyval"
  isoformat :: "'dt \<Rightarrow> string"
  str_of :: "pyval \<Rightarrow> string"

text \<open>The attributes of a \<open>TodoMeClient\<close>: the base URL and the headers of its
  session (those the client sets).\<close>

record client =
  base_url :: string
  session_headers :: "(string \<times> string) list"

text \<open>\<open>TodoMeClient.__init__\<close>\<close>

definition init :: "(pyval \<Rightarrow> string) \<Rightarrow> string \<Rightarrow> pyval \<Rightarrow> client" where
  "init sf url api_token =
     \<lparr> base_url = rstrip_slash url,
       session_headers =
         AList.update ''Content-Type'' ''application/json''
           (AList.update ''Authorization'' (''Bearer '' @ format_value sf api_token) []) \<rparr>"

text \<open>The request that \<open>_request\<close> passes to \<open>session.request\<close>.\<close>

definition build_request ::
  "client \<Rightarrow> string \<Rightarrow> string \<Rightarrow> (string \<times> pyval) list option \<Rightarrow> pyval option \<Rightarrow> request" where
  "build_request c m endpoint ps js =
     \<lparr> req_method = m,
       req_url = base_url c @ ''/'' @ lstrip_slash endpoint,
       req_headers = session_headers c,
       req_params = ps,
       req_json = js \<rparr>"

text \<open>Lines 50 to 58 of \<open>_request\<close>: raise from a failed envelope, or return its
  \<open>data\<close>.\<close>

definition unwrap :: "pyval \<Rightarrow> exn + pyval" where
  "unwrap data =
     (case py_get data ''success'' PNone of
        Inl ex \<Rightarrow> Inl ex
      | Inr ok \<Rightarrow>
          if \<not> truthy ok then
            (case py_get data ''error'' (PDict []) of
               Inl ex \<Rightarrow> Inl ex
             | Inr err \<Rightarrow>
                 (case py_get err ''code'' (PStr ''UNKNOWN_ERROR'') of
                    Inl ex \<Rightarrow> Inl ex
                  | Inr cd \<Rightarrow>
                      (case py_get err ''message'' (PStr ''Unknown error'') of
                         Inl ex \<Rightarrow> Inl ex
                       | Inr msg \<Rightarrow>
                           (case py_get err ''details'' PNone of
                              Inl ex \<Rightarrow> Inl ex
                            | Inr det \<Rightarrow> Inl (TodoMeError cd msg det)))))
          else py_get data ''data'' (PDict []))"

text \<open>\<open>TodoMeClient._request\<close>: the result, and the requests sent so far with this
  one added.\<close>

definition client_request ::
  "'dt runtime \<Rightarrow> client \<Rightarrow> request list \<Rightarrow> string \<Rightarrow> string \<Rightarrow>
     (string \<times> pyval) list option \<Rightarrow> pyval option \<Rightarrow> (exn + pyval) \<times> request list" where
  "client_request rt c sent m endpoint ps js =
     (let req = build_request c m endpoint ps js in
      (case service rt sent req of
         Inl ex \<Rightarrow> Inl ex
       | Inr data \<Rightarrow> unwrap data,
       sent @ [req]))"

subsection \<open>Authentication\<close>

text \<open>
  \<open>register\<close> and \<open>login\<close> differ in the path only. They post without a session, so
  the request carries no header of the client, and they check the envelope themselves.
\<close>

definition auth_post ::
  "'dt runtime \<Rightarrow> request list \<Rightarrow> string \<Rightarrow> string \<Rightarrow> string \<Rightarrow> string \<Rightarrow>
     (exn + client) \<times> request list" where
  "auth_post rt sent path url email password =
     (let req = \<lparr> req_method = ''POST'',
                  req_url = rstrip_slash url @ path,
                  req_headers = [],
                  req_params = None,
                  req_json = Some (PDict [(''email'', PStr email), (''password'', PStr password)]) \<rparr>
      in
      (case service rt sent req of
         Inl ex \<Rightarrow> Inl ex
       | Inr data \<Rightarrow>
           (case py_get data ''success'' PNone of
              Inl ex \<Rightarrow> Inl ex
            | Inr ok \<Rightarrow>
                if \<not> truthy ok then
                  (case py_get data ''error'' (PDict []) of
                     Inl ex \<Rightarrow> Inl ex
                   | Inr err \<Rightarrow>
                       (case py_get err ''code'' PNone of
                          Inl ex \<Rightarrow> Inl ex
                        | Inr cd \<Rightarrow>
                            (case py_get err ''message'' PNone of
                               Inl ex \<Rightarrow> Inl ex
                             | Inr msg \<Rightarrow> Inl (TodoMeError cd msg PNone))))
                else
                  (case py_subscript data ''data'' of
                     Inl ex \<Rightarrow> Inl ex
                   | Inr d \<Rightarrow>
                       (case py_subscript d ''token'' of
                          Inl ex \<Rightarrow> Inl ex
                        | Inr tok \<Rightarrow> Inr (init (str_of rt) url tok)))),
       sent @ [req]))"

definition register ::
  "'dt runtime \<Rightarrow> request list \<Rightarrow> string \<Rightarrow> string \<Rightarrow> string \<Rightarrow> (exn + client) \<times> request list" where
  "register rt sent url email password = auth_post rt sent ''/auth/register'' url email password"

definition login ::
  "'dt runtime \<Rightarrow> request list \<Rightarrow> string \<Rightarrow> string \<Rightarrow> string \<Rightarrow> (exn + client) \<times> request list" where
  "login rt sent url email password = auth_post rt sent ''/auth/token'' url email password"

text \<open>
  \<open>refresh_token\<close>: the header is assigned only after the request has returned and
  the token has been read, so a raise leaves the client as it was.
\<close>

definition refresh_token ::
  "'dt runtime \<Rightarrow> client \<Rightarrow> request list \<Rightarrow> (exn + pyval) \<times> client \<times> request list" where
  "refresh_token rt c sent =
     (case client_request rt c sent ''POST'' ''/auth/refresh'' None None of
        (Inl ex, sent') \<Rightarrow> (Inl ex, c, sent')
      | (Inr data, sent') \<Rightarrow>
          (case py_subscript data ''token'' of
             Inl ex \<Rightarrow> (Inl ex, c, sent')
           | Inr new_token \<Rightarrow>
               (Inr new_token,
                c\<lparr>session_headers :=
                    AList.update ''Authorization''
                      (''Bearer '' @ format_value (str_of rt) new_token) (session_headers c)\<rparr>,
                sent')))"

subsection \<open>Tasks\<close>

text \<open>
  The keyword arguments of \<open>list_tasks\<close>. \<open>None\<close> is Python's \<open>None\<close> for the
  eight filters (their default), and an argument that was not passed for \<open>page\<close> and
  \<open>limit\<close>, whose defaults the function fills in.
\<close>

record 'dt list_tasks_args =
  lt_status :: "string option"
  lt_priority_min :: "int option"
  lt_priority_max :: "int option"
  lt_project_id :: "string option"
  lt_tag_ids :: "string list option"
  lt_search :: "string option"
  lt_due_before :: "'dt option"
  lt_due_after :: "'dt option"
  lt_page :: "int option"
  lt_limit :: "int option"

text \<open>
  Truth value of an optional argument: \<open>None\<close> is false, a string or list is true
  when it is not empty, an integer when it is not zero, a \<open>datetime\<close> always.
\<close>

definition given_str :: "string option \<Rightarrow> bool" where
  "given_str x = (case x of None \<Rightarrow> False | Some s \<Rightarrow> s \<noteq> [])"

definition given_int :: "int option \<Rightarrow> bool" where
  "given_int x = (case x of None \<Rightarrow> False | Some n \<Rightarrow> n \<noteq> 0)"

definition given_list :: "string list option \<Rightarrow> bool" where
  "given_list x = (case x of None \<Rightarrow> False | Some xs \<Rightarrow> xs \<noteq> [])"

definition given_dt :: "'dt option \<Rightarrow> bool" where
  "given_dt x = (case x of None \<Rightarrow> False | Some d \<Rightarrow> True)"

text \<open>Lines 117 to 134 of \<open>list_tasks\<close>: the query mapping, one assignment after
  the other.\<close>

definition list_tasks_params :: "('dt \<Rightarrow> string) \<Rightarrow> 'dt list_tasks_args \<Rightarrow> (string \<times> pyval) list" where
  "list_tasks_params isofmt a =
     (let page = (case lt_page a of None \<Rightarrow> 1 | Some p \<Rightarrow> p);
          limit = (case lt_limit a of None \<Rightarrow> 20 | Some l \<Rightarrow> l);
          p0 = [(''page'', PInt page), (''limit'', PInt limit)];
          p1 = (if given_str (lt_status a)
                then AList.update ''status'' (PStr (the (lt_status a))) p0 else p0);
          p2 = (if given_int (lt_priority_min a)
                then AList.update ''priority_min'' (PInt (the (lt_priority_min a))) p1 else p1);
          p3 = (if given_int (lt_priority_max a)
                then AList.update ''priority_max'' (PInt (the (lt_priority_max a))) p2 else p2);
          p4 = (if given_str (lt_project_id a)
                then AList.update ''project_ids'' (PStr (the (lt_project_id a))) p3 else p3);
          p5 = (if given_list (lt_tag_ids a)
                then AList.update ''tag_ids'' (PStr (join '','' (the (lt_tag_ids a)))) p4 else p4);
          p6 = (if given_str (lt_search a)
                then AList.update ''search'' (PStr (the (lt_search a))) p5 else p5);
          p7 = (if given_dt (lt_due_before a)
                then AList.update ''due_before'' (PStr (isofmt (the (lt_due_before a)))) p6 else p6);
          p8 = (if given_dt (lt_due_after a)
                then AList.update ''due_after'' (PStr (isofmt (the (lt_due_after a)))) p7 else p7)
      in p8)"

definition list_tasks ::
  "'dt runtime \<Rightarrow> client \<Rightarrow> request list \<Rightarrow> 'dt list_tasks_args \<Rightarrow> (exn + pyval) \<times> request list" where
  "list_tasks rt c sent a =
     client_request rt c sent ''GET'' ''/tasks'' (Some (list_tasks_params (isoformat rt) a)) None"

definition get_today_tasks ::
  "'dt runtime \<Rightarrow> client \<Rightarrow> request list \<Rightarrow> (exn + pyval) \<times> request list" where
  "get_today_tasks rt c sent = client_request rt c sent ''GET'' ''/tasks/today'' None None"

text \<open>\<open>days\<close> is \<open>None\<close> when the argument is not passed; its default is 7.\<close>

definition get_upcoming_tasks ::
  "'dt runtime \<Rightarrow> client \<Rightarrow> request list \<Rightarrow> int option \<Rightarrow> (exn + pyval) \<times> request list" where
  "get_upcoming_tasks rt c sent days =
     client_request rt c sent ''GET'' ''/tasks/upcoming''
       (Some [(''days'', PInt (case days of None \<Rightarrow> 7 | Some d \<Rightarrow> d))]) None"

definition get_overdue_tasks ::
  "'dt runtime \<Rightarrow> client \<Rightarrow> request list \<Rightarrow> (exn + pyval) \<times> request list" where
  "get_overdue_tasks rt c sent = client_request rt c sent ''GET'' ''/tasks/overdue'' None None"

definition get_task ::
  "'dt runtime \<Rightarrow> client \<Rightarrow> request list \<Rightarrow> string \<Rightarrow> (exn + pyval) \<times> request list" where
  "get_task rt c sent task_id = client_request rt c sent ''GET'' (''/tasks/'' @ task_id) None None"

text \<open>The arguments of \<open>create_task\<close>; \<open>ct_priority\<close> is \<open>None\<close> when the argument
  is not passed (default 3).\<close>

record 'dt create_task_args =
  ct_title :: string
  ct_description :: "string option"
  ct_priority :: "int option"
  ct_due_date :: "'dt option"
  ct_project_id :: "string option"
  ct_tag_ids :: "string list option"

text \<open>Lines 164 to 173 of \<open>create_task\<close>: the JSON body.\<close>

definition create_task_data :: "('dt \<Rightarrow> string) \<Rightarrow> 'dt create_task_args \<Rightarrow> (string \<times> pyval) list" where
  "create_task_data isofmt a =
     (let priority = (case ct_priority a of None \<Rightarrow> 3 | Some p \<Rightarrow> p);
          d0 = [(''title'', PStr (ct_title a)), (''priority'', PInt priority)];
          d1 = (if given_str (ct_description a)
                then AList.update ''description'' (PStr (the (ct_description a))) d0 else d0);
          d2 = (if given_dt (ct_due_date a)
                then AList.update ''dueDate'' (PStr (isofmt (the (ct_due_date a)))) d1 else d1);
          d3 = (if given_str (ct_project_id a)
                then AList.update ''projectId'' (PStr (the (ct_project_id a))) d2 else d2);
          d4 = (if given_list (ct_tag_ids a)
                then AList.update ''tagIds'' (PList (map PStr (the (ct_tag_ids a)))) d3 else d3)
      in d4)"

definition create_task ::
  "'dt runtime \<Rightarrow> client \<Rightarrow> request list \<Rightarrow> 'dt create_task_args \<Rightarrow> (exn + pyval) \<times> request list" where
  "create_task rt c sent a =
     client_request rt c sent ''POST'' ''/tasks'' None
       (Some (PDict (create_task_data (isoformat rt) a)))"

definition create_task_natural ::
  "'dt runtime \<Rightarrow> client \<Rightarrow> request list \<Rightarrow> string \<Rightarrow> (exn + pyval) \<times> request list" where
  "create_task_natural rt c sent text =
     client_request rt c sent ''POST'' ''/tasks?parse_natural_language=true'' None
       (Some (PDict [(''input_text'', PStr text)]))"

text \<open>\<open>updates\<close> is the dictionary of the keyword arguments.\<close>

definition update_task ::
  "'dt runtime \<Rightarrow> client \<Rightarrow> request list \<Rightarrow> string \<Rightarrow> (string \<times> pyval) list \<Rightarrow>
     (exn + pyval) \<times> request list" where
  "update_task rt c sent task_id updates =
     client_request rt c sent ''PATCH'' (''/tasks/'' @ task_id) None (Some (PDict updates))"

definition delete_task ::
  "'dt runtime \<Rightarrow> client \<Rightarrow> request list \<Rightarrow> string \<Rightarrow> (exn + pyval) \<times> request list" where
  "delete_task rt c sent task_id =
     client_request rt c sent ''DELETE'' (''/tasks/'' @ task_id) None None"

definition complete_task ::
  "'dt runtime \<Rightarrow> client \<Rightarrow> request list \<Rightarrow> string \<Rightarrow> (exn + pyval) \<times> request list" where
  "complete_task rt c sent task_id =
     client_request rt c sent ''PATCH'' (''/tasks/'' @ task_id @ ''/status'') None
       (Some (PDict [(''status'', PStr ''completed'')]))"

definition uncomplete_task ::
  "'dt runtime \<Rightarrow> client \<Rightarrow> request list \<Rightarrow> string \<Rightarrow> (exn + pyval) \<times> request list" where
  "uncomplete_task rt c sent task_id =
     client_request rt c sent ''PATCH'' (''/tasks/'' @ task_id @ ''/status'') None
       (Some (PDict [(''status'', PStr ''pending'')]))"

subsection \<open>Batch operations\<close>

definition batch_complete ::
  "'dt runtime \<Rightarrow> client \<Rightarrow> request list \<Rightarrow> string list \<Rightarrow> (exn + pyval) \<times> request list" where
  "batch_complete rt c sent task_ids =
     (let operations =
            map (\<lambda>tid. PDict [(''action'', PStr ''complete''), (''taskId'', PStr tid)]) task_ids
      in client_request rt c sent ''POST'' ''/batch'' None
           (Some (PDict [(''operations'', PList operations)])))"

definition batch_delete ::
  "'dt runtime \<Rightarrow> client \<Rightarrow> request list \<Rightarrow> string list \<Rightarrow> (exn + pyval) \<times> request list" where
  "batch_delete rt c sent task_ids =
     (let operations =
            map (\<lambda>tid. PDict [(''action'', PStr ''delete''), (''taskId'', PStr tid)]) task_ids
      in client_request rt c sent ''POST'' ''/batch'' None
           (Some (PDict [(''operations'', PList operations)])))"

subsection \<open>Search, parse, undo, projects and tags\<close>

text \<open>\<open>limit\<close> is \<open>None\<close> when the argument is not passed; its default is 20.\<close>

definition search ::
  "'dt runtime \<Rightarrow> client \<Rightarrow> request list \<Rightarrow> string \<Rightarrow> int option \<Rightarrow> (exn + pyval) \<times> request list" where
  "search rt c sent query limit =
     client_request rt c sent ''GET'' ''/search''
       (Some [(''q'', PStr query), (''limit'', PInt (case limit of None \<Rightarrow> 20 | Some l \<Rightarrow> l))])
       None"

definition parse_natural ::
  "'dt runtime \<Rightarrow> client \<Rightarrow> request list \<Rightarrow> string \<Rightarrow> (exn + pyval) \<times> request list" where
  "parse_natural rt c sent text =
     client_request rt c sent ''POST'' ''/parse'' None (Some (PDict [(''text'', PStr text)]))"

definition undo ::
  "'dt runtime \<Rightarrow> client \<Rightarrow> request list \<Rightarrow> string \<Rightarrow> (exn + pyval) \<times> request list" where
  "undo rt c sent undo_token = client_request rt c sent ''POST'' (''/undo/'' @ undo_token) None None"

definition list_projects ::
  "'dt runtime \<Rightarrow> client \<Rightarrow> request list \<Rightarrow> (exn + pyval) \<times> request list" where
  "list_projects rt c sent = client_request rt c sent ''GET'' ''/projects'' None None"

definition create_project ::
  "'dt runtime \<Rightarrow> client \<Rightarrow> request list \<Rightarrow> string \<Rightarrow> string option \<Rightarrow> string option \<Rightarrow>
     (exn + pyval) \<times> request list" where
  "create_project rt c sent name description parent_id =
     (let d0 = [(''name'', PStr name)];
          d1 = (if given_str description
                then AList.update ''description'' (PStr (the description)) d0 else d0);
          d2 = (if given_str parent_id
                then AList.update ''parentId'' (PStr (the parent_id)) d1 else d1)
      in client_request rt c sent ''POST'' ''/projects'' None (Some (PDict d2)))"

definition list_tags ::
  "'dt runtime \<Rightarrow> client \<Rightarrow> request list \<Rightarrow> (exn + pyval) \<times> request list" where
  "list_tags rt c sent = client_request rt c sent ''GET'' ''/tags'' None None"

subsection \<open>A call of any method of a client\<close>

text \<open>
  The methods of a client object, with their arguments, and the step that one call
  makes on the pair of the client and the requests sent. Only \<open>refresh_token\<close>
  changes the client.
\<close>

datatype 'dt call =
    RefreshToken
  | ListTasks "'dt list_tasks_args"
  | GetTodayTasks
  | GetUpcomingTasks "int option"
  | GetOverdueTasks
  | GetTask string
  | CreateTask "'dt create_task_args"
  | CreateTaskNatural string
  | UpdateTask string "(string \<times> pyval) list"
  | DeleteTask string
  | CompleteTask string
  | UncompleteTask string
  | BatchComplete "string list"
  | BatchDelete "string list"
  | Search string "int option"
  | ParseNatural string
  | Undo string
  | ListProjects
  | CreateProject string "string option" "string option"
  | ListTags

definition keep :: "client \<Rightarrow> (exn + pyval) \<times> request list \<Rightarrow> (exn + pyval) \<times> client \<times> request list" where
  "keep c r = (fst r, c, snd r)"

fun perform ::
  "'dt runtime \<Rightarrow> 'dt call \<Rightarrow> client \<Rightarrow> request list \<Rightarrow> (exn + pyval) \<times> client \<times> request list" where
  "perform rt RefreshToken c sent = refresh_token rt c sent"
| "perform rt (ListTasks a) c sent = keep c (list_tasks rt c sent a)"
| "perform rt GetTodayTasks c sent = keep c (get_today_tasks rt c sent)"
| "perform rt (GetUpcomingTasks days) c sent = keep c (get_upcoming_tasks rt c sent days)"
| "perform rt GetOverdueTasks c sent = keep c (get_overdue_tasks rt c sent)"
| "perform rt (GetTask i) c sent = keep c (get_task rt c sent i)"
| "perform rt (CreateTask a) c sent = keep c (create_task rt c sent a)"
| "perform rt (CreateTaskNatural t) c sent = keep c (create_task_natural rt c sent t)"
| "perform rt (UpdateTask i u) c sent = keep c (update_task rt c sent i u)"
| "perform rt (DeleteTask i) c sent = keep c (delete_task rt c sent i)"
| "perform rt (CompleteTask i) c sent = keep c (complete_task rt c sent i)"
| "perform rt (UncompleteTask i) c sent = keep c (uncomplete_task rt c sent i)"
| "perform rt (BatchComplete ids) c sent = keep c (batch_complete rt c sent ids)"
| "perform rt (BatchDelete ids) c sent = keep c (batch_delete rt c sent ids)"
| "perform rt (Search q l) c sent = keep c (search rt c sent q l)"
| "perform rt (ParseNatural t) c sent = keep c (parse_natural rt c sent t)"
| "perform rt (Undo t) c sent = keep c (undo rt c sent t)"
| "perform rt ListProjects c sent = keep c (list_projects rt c sent)"
| "perform rt (CreateProject n d p) c sent = keep c (create_project rt c sent n d p)"
| "perform rt ListTags c sent = keep c (list_tags rt c sent)"

text \<open>A sequence of calls on one client, each starting from the client and the
  requests that the one before left: what the calls returned or raised, in order, the
  client at the end, and all requests sent.\<close>

fun run ::
  "'dt runtime \<Rightarrow> 'dt call list \<Rightarrow> client \<Rightarrow> request list \<Rightarrow>
     (exn + pyval) list \<times> client \<times> request list" where
  "run rt [] c sent = ([], c, sent)"
| "run rt (x # xs) c sent =
     (case perform rt x c sent of
        (r, c', sent') \<Rightarrow>
          (case run rt xs c' sent' of (rs, c'', sent'') \<Rightarrow> (r # rs, c'', sent'')))"

subsection \<open>Concrete inputs\<close>

text \<open>
  A service that answers every request with the same body, a client as
  \<open>TodoMeClient("https://example.com/api/v1/", "old-token")\<close> builds it, and
  \<open>list_tasks()\<close> and \<open>create_task(title)\<close> with no other argument. In these runs a
  timestamp is given by its ISO text, and no token is anything but a string.
\<close>

definition fixed_service :: "pyval \<Rightarrow> request list \<Rightarrow> request \<Rightarrow> exn + pyval" where
  "fixed_service body sent req = Inr body"

definition iso_text :: "string \<Rightarrow> string" where
  "iso_text d = d"

definition str_stub :: "pyval \<Rightarrow> string" where
  "str_stub v = ''?''"

definition fixed_runtime :: "pyval \<Rightarrow> string runtime" where
  "fixed_runtime body =
     \<lparr> service = fixed_service body, isoformat = iso_text, str_of = str_stub \<rparr>"

definition demo_client :: client where
  "demo_client = init str_stub ''https://example.com/api/v1/'' (PStr ''old-token'')"

definition no_filters :: "'dt list_tasks_args" where
  "no_filters =
     \<lparr> lt_status = None, lt_priority_min = None, lt_priority_max = None,
       lt_project_id = None, lt_tag_ids = None, lt_search = None, lt_due_before = None,
       lt_due_after = None, lt_page = None, lt_limit = None \<rparr>"

definition only_title :: "string \<Rightarrow> 'dt create_task_args" where
  "only_title t =
     \<lparr> ct_title = t, ct_description = None, ct_priority = None, ct_due_date = None,
       ct_project_id = None, ct_tag_ids = None \<rparr>"

definition ok_empty :: pyval where
  "ok_empty = PDict [(''success'', PBool True)]"

definition ok_token :: pyval where
  "ok_token = PDict [(''success'', PBool True), (''data'', PDict [(''token'', PStr ''new-token'')])]"

definition failed_with_details :: pyval where
  "failed_with_details =
     PDict [(''success'', PBool False),
            (''error'', PDict [(''details'', PDict [(''field'', PStr ''email'')])])]"

section \<open>Properties\<close>

subsection \<open>What a request sends and returns\<close>

lemma client_request_sent:
  "snd (client_request rt c sent m e ps js) = sent @ [build_request c m e ps js]"
  by (simp add: client_request_def Let_def)

lemma client_request_result:
  "fst (client_request rt c sent m e ps js) =
     (case service rt sent (build_request c m e ps js) of Inl ex \<Rightarrow> Inl ex | Inr d \<Rightarrow> unwrap d)"
  by (simp add: client_request_def Let_def)

lemma unwrap_success:
  "map_of kvs ''success'' = Some (PBool True) \<Longrightarrow>
   unwrap (PDict kvs) = Inr (case map_of kvs ''data'' of None \<Rightarrow> PDict [] | Some v \<Rightarrow> v)"
  by (simp add: unwrap_def)

text \<open>Every method but \<open>refresh_token\<close> is one call of \<open>_request\<close> whose result it
  hands back.\<close>

lemma perform_via_request:
  "call \<noteq> RefreshToken \<Longrightarrow>
   \<exists>m e ps js. perform rt call c sent = keep c (client_request rt c sent m e ps js)"
  by (cases call)
     (auto simp: list_tasks_def get_today_tasks_def get_upcoming_tasks_def get_overdue_tasks_def
        get_task_def create_task_def create_task_natural_def update_task_def delete_task_def
        complete_task_def uncomplete_task_def batch_complete_def batch_delete_def search_def
        parse_natural_def undo_def list_projects_def create_project_def list_tags_def Let_def)

lemma refresh_token_sent:
  "snd (snd (refresh_token rt c sent)) =
     sent @ [build_request c ''POST'' ''/auth/refresh'' None None]"
  by (simp add: refresh_token_def client_request_def Let_def split: sum.splits prod.splits)

text \<open>Every call sends exactly one request, with the headers the client holds when
  the call starts.\<close>

lemma perform_one_request:
  "\<exists>q. snd (snd (perform rt call c sent)) = sent @ [q] \<and> req_headers q = session_headers c"
proof (cases "call = RefreshToken")
  case True
  then show ?thesis by (simp add: refresh_token_sent build_request_def)
next
  case False
  from perform_via_request [OF False, of rt c sent]
  obtain m e ps js where "perform rt call c sent = keep c (client_request rt c sent m e ps js)"
    by blast
  then show ?thesis by (simp add: keep_def client_request_sent build_request_def)
qed

lemma perform_keeps_client:
  "call \<noteq> RefreshToken \<Longrightarrow> fst (snd (perform rt call c sent)) = c"
  using perform_via_request [of call rt c sent] by (auto simp: keep_def)

lemma refresh_token_failure_keeps:
  "fst (refresh_token rt c sent) = Inl ex \<Longrightarrow> fst (snd (refresh_token rt c sent)) = c"
  by (auto simp: refresh_token_def split: sum.splits prod.splits)

lemma refresh_token_success_header:
  "fst (refresh_token rt c sent) = Inr tok \<Longrightarrow>
   map_of (session_headers (fst (snd (refresh_token rt c sent)))) ''Authorization'' =
     Some (''Bearer '' @ format_value (str_of rt) tok)"
  by (auto simp: refresh_token_def update_conv' split: sum.splits prod.splits)

subsection \<open>The success envelope\<close>

text \<open>
  C1, as the code has it. When the body that answers a call's request is a mapping
  whose \<open>success\<close> field is \<open>True\<close>, every method that hands back the result of
  \<open>_request\<close> (all methods of a client but \<open>refresh_token\<close>; \<open>register\<close> and
  \<open>login\<close> build a client instead) returns exactly the \<open>data\<close> field, or the empty
  mapping when the field is absent, and does not raise.
\<close>

theorem success_returns_data:
  assumes "call \<noteq> RefreshToken"
    and "perform rt call c sent = (r, c', sent')"
    and "service rt sent (last sent') = Inr (PDict body)"
    and "map_of body ''success'' = Some (PBool True)"
  shows "r = Inr (case map_of body ''data'' of None \<Rightarrow> PDict [] | Some v \<Rightarrow> v)"
proof -
  from perform_via_request [OF assms(1), of rt c sent]
  obtain m e ps js where p: "perform rt call c sent = keep c (client_request rt c sent m e ps js)"
    by blast
  with assms(2) have s: "sent' = sent @ [build_request c m e ps js]"
    and r: "r = fst (client_request rt c sent m e ps js)"
    by (auto simp: keep_def client_request_sent)
  from s assms(3) have "service rt sent (build_request c m e ps js) = Inr (PDict body)"
    by simp
  with r show ?thesis
    by (simp add: client_request_result unwrap_success [OF assms(4)])
qed

theorem success_returns_data_witness:
  "perform (fixed_runtime ok_token) GetTodayTasks demo_client [] =
     (Inr (PDict [(''token'', PStr ''new-token'')]), demo_client,
      [build_request demo_client ''GET'' ''/tasks/today'' None None])
   \<and> fst (perform (fixed_runtime ok_empty) ListTags demo_client []) = Inr (PDict [])"
proof -
  have a: "perform (fixed_runtime ok_token) GetTodayTasks demo_client [] =
     (fst (perform (fixed_runtime ok_token) GetTodayTasks demo_client []), demo_client,
      [build_request demo_client ''GET'' ''/tasks/today'' None None])"
    by (simp add: get_today_tasks_def keep_def client_request_sent)
  have b: "service (fixed_runtime ok_token) []
       (last [build_request demo_client ''GET'' ''/tasks/today'' None None]) =
     Inr (PDict [(''success'', PBool True), (''data'', PDict [(''token'', PStr ''new-token'')])])"
    by (simp add: fixed_runtime_def fixed_service_def ok_token_def)
  have c: "map_of [(''success'', PBool True), (''data'', PDict [(''token'', PStr ''new-token'')])]
      ''success'' = Some (PBool True)"
    by simp
  have a': "perform (fixed_runtime ok_empty) ListTags demo_client [] =
     (fst (perform (fixed_runtime ok_empty) ListTags demo_client []), demo_client,
      [build_request demo_client ''GET'' ''/tags'' None None])"
    by (simp add: list_tags_def keep_def client_request_sent)
  have b': "service (fixed_runtime ok_empty) []
       (last [build_request demo_client ''GET'' ''/tags'' None None]) =
     Inr (PDict [(''success'', PBool True)])"
    by (simp add: fixed_runtime_def fixed_service_def ok_empty_def)
  have c': "map_of [(''success'', PBool True)] ''success'' = Some (PBool True)"
    by simp
  from success_returns_data [OF _ a b c] success_returns_data [OF _ a' b' c'] a
  show ?thesis by simp
qed

text \<open>
  C1 as stated, for every operation, fails: on a success envelope without \<open>data\<close>,
  \<open>refresh_token\<close> raises \<open>KeyError\<close> and \<open>register\<close> raises \<open>KeyError\<close>; on one
  that carries a token, \<open>refresh_token\<close> returns the token, not the \<open>data\<close> mapping.
\<close>

theorem refresh_token_not_data_counterexample:
  "fst (perform (fixed_runtime ok_empty) RefreshToken demo_client []) = Inl (KeyError ''token'')
   \<and> fst (perform (fixed_runtime ok_token) RefreshToken demo_client []) = Inr (PStr ''new-token'')
   \<and> fst (register (fixed_runtime ok_empty) [] ''https://example.com/api/v1'' ''a@b.c'' ''pw'')
       = Inl (KeyError ''data'')"
  by (simp add: refresh_token_def client_request_def fixed_runtime_def fixed_service_def
      ok_empty_def ok_token_def unwrap_def register_def auth_post_def Let_def)

subsection \<open>The failure envelope\<close>

text \<open>
  What \<open>_request\<close> raises from a body whose \<open>success\<close> is false or absent: the three
  fields of the \<open>error\<close> mapping, with the two placeholders where \<open>code\<close> and
  \<open>message\<close> are missing; with no \<open>error\<close> field at all, the placeholders alone.
\<close>

lemma unwrap_failure_defaults:
  assumes "\<not> truthy (case map_of kvs ''success'' of None \<Rightarrow> PNone | Some v \<Rightarrow> v)"
    and "map_of kvs ''error'' = Some (PDict err)"
  shows "unwrap (PDict kvs) =
     Inl (TodoMeError
       (case map_of err ''code'' of None \<Rightarrow> PStr ''UNKNOWN_ERROR'' | Some v \<Rightarrow> v)
       (case map_of err ''message'' of None \<Rightarrow> PStr ''Unknown error'' | Some v \<Rightarrow> v)
       (case map_of err ''details'' of None \<Rightarrow> PNone | Some v \<Rightarrow> v))"
  using assms by (simp add: unwrap_def)

lemma unwrap_failure_no_error:
  assumes "\<not> truthy (case map_of kvs ''success'' of None \<Rightarrow> PNone | Some v \<Rightarrow> v)"
    and "map_of kvs ''error'' = None"
  shows "unwrap (PDict kvs) =
     Inl (TodoMeError (PStr ''UNKNOWN_ERROR'') (PStr ''Unknown error'') PNone)"
  using assms by (simp add: unwrap_def)

text \<open>So every method of a client, \<open>refresh_token\<close> included, raises that error
  when the body answering its request is a failed envelope.\<close>

lemma perform_raises_from_envelope:
  assumes "snd (snd (perform rt call c sent)) = sent @ [q]"
    and "service rt sent q = Inr d"
    and "unwrap d = Inl ex"
  shows "fst (perform rt call c sent) = Inl ex"
proof (cases "call = RefreshToken")
  case True
  with assms(1) have "q = build_request c ''POST'' ''/auth/refresh'' None None"
    by (simp add: refresh_token_sent)
  with assms(2,3) True show ?thesis
    by (simp add: refresh_token_def client_request_def Let_def)
next
  case False
  from perform_via_request [OF False, of rt c sent]
  obtain m e ps js where p: "perform rt call c sent = keep c (client_request rt c sent m e ps js)"
    by blast
  with assms(1) have "q = build_request c m e ps js"
    by (simp add: keep_def client_request_sent)
  with assms(2,3) p show ?thesis
    by (simp add: keep_def client_request_result)
qed

lemma failure_envelope_raises:
  assumes "snd (snd (perform rt call c sent)) = sent @ [q]"
    and "service rt sent q = Inr (PDict kvs)"
    and "\<not> truthy (case map_of kvs ''success'' of None \<Rightarrow> PNone | Some v \<Rightarrow> v)"
    and "map_of kvs ''error'' = Some (PDict err)"
  shows "fst (perform rt call c sent) =
     Inl (TodoMeError
       (case map_of err ''code'' of None \<Rightarrow> PStr ''UNKNOWN_ERROR'' | Some v \<Rightarrow> v)
       (case map_of err ''message'' of None \<Rightarrow> PStr ''Unknown error'' | Some v \<Rightarrow> v)
       (case map_of err ''details'' of None \<Rightarrow> PNone | Some v \<Rightarrow> v))"
  by (rule perform_raises_from_envelope [OF assms(1,2) unwrap_failure_defaults [OF assms(3,4)]])

text \<open>
  C2 says that every operation, \<open>register\<close> and \<open>login\<close> included, raises with the
  placeholders \<open>UNKNOWN_ERROR\<close> and \<open>Unknown error\<close> and passes \<open>details\<close> through.
  On a failed envelope whose \<open>error\<close> has \<open>details\<close> but neither \<open>code\<close> nor
  \<open>message\<close>, \<open>register\<close> and \<open>login\<close> raise with \<open>code\<close>, \<open>message\<close> and
  \<open>details\<close> all \<open>None\<close>, while a method that goes through \<open>_request\<close> raises
  what the claim says.
\<close>

theorem register_login_failure_without_defaults:
  "fst (register (fixed_runtime failed_with_details) [] ''https://example.com/api/v1'' ''a@b.c'' ''pw'')
     = Inl (TodoMeError PNone PNone PNone)
   \<and> fst (login (fixed_runtime failed_with_details) [] ''https://example.com/api/v1'' ''a@b.c'' ''pw'')
     = Inl (TodoMeError PNone PNone PNone)
   \<and> fst (perform (fixed_runtime failed_with_details) ListTags demo_client [])
     = Inl (TodoMeError (PStr ''UNKNOWN_ERROR'') (PStr ''Unknown error'')
              (PDict [(''field'', PStr ''email'')]))"
  by (simp add: register_def login_def auth_post_def list_tags_def keep_def client_request_def
      unwrap_def fixed_runtime_def fixed_service_def failed_with_details_def Let_def)

subsection \<open>The query mapping of \<open>list_tasks\<close>\<close>

lemma list_tasks_sends:
  "snd (list_tasks rt c sent a) =
     sent @ [build_request c ''GET'' ''/tasks'' (Some (list_tasks_params (isoformat rt) a)) None]"
  by (simp add: list_tasks_def client_request_sent)

lemma map_of_cond_update:
  "map_of (if b then AList.update k v al else al) k' =
     (if b \<and> k = k' then Some v else map_of al k')"
  by (simp add: update_conv')

lemma params_priority_min:
  "map_of (list_tasks_params f a) ''priority_min'' =
     (case lt_priority_min a of None \<Rightarrow> None | Some n \<Rightarrow> if n = 0 then None else Some (PInt n))"
  by (cases "lt_priority_min a")
     (simp_all add: list_tasks_params_def Let_def map_of_cond_update given_int_def)

lemma params_project_ids:
  "map_of (list_tasks_params f a) ''project_ids'' =
     (case lt_project_id a of None \<Rightarrow> None | Some p \<Rightarrow> if p = [] then None else Some (PStr p))"
  by (cases "lt_project_id a")
     (simp_all add: list_tasks_params_def Let_def map_of_cond_update given_str_def)

lemma params_project_id:
  "map_of (list_tasks_params f a) ''project_id'' = None"
  by (simp add: list_tasks_params_def Let_def map_of_cond_update)

text \<open>
  C9. With no optional filter supplied, \<open>list_tasks\<close> sends one GET request to
  \<open>/tasks\<close> whose query mapping is exactly \<open>{page: 1, limit: 20}\<close>.
\<close>

theorem list_tasks_no_filters:
  "snd (list_tasks rt c sent no_filters) =
     sent @ [build_request c ''GET'' ''/tasks''
               (Some [(''page'', PInt 1), (''limit'', PInt 20)]) None]"
  by (simp add: list_tasks_sends list_tasks_params_def no_filters_def
      given_str_def given_int_def given_list_def given_dt_def)

text \<open>
  C3, as the code has it. The builder tests the truth value of \<open>priority_min\<close>, not
  its presence: the query mapping of the request carries \<open>priority_min\<close> with the
  caller's value when that value is not zero, and has no \<open>priority_min\<close> entry when
  the caller passes 0 or nothing.
\<close>

theorem priority_min_by_truthiness:
  "\<exists>q ps. snd (list_tasks rt c sent a) = sent @ [q] \<and> req_params q = Some ps \<and>
     map_of ps ''priority_min'' =
       (case lt_priority_min a of None \<Rightarrow> None
        | Some n \<Rightarrow> if n = 0 then None else Some (PInt n))"
  by (simp add: list_tasks_sends build_request_def params_priority_min)

text \<open>
  C3 as stated fails: \<open>list_tasks(priority_min=0)\<close> sends the query mapping
  \<open>{page: 1, limit: 20}\<close>, without \<open>priority_min\<close>.
\<close>

theorem priority_min_zero_dropped_counterexample:
  "map req_params
     (snd (list_tasks (fixed_runtime ok_empty) demo_client []
        (no_filters\<lparr>lt_priority_min := Some 0\<rparr>)))
   = [Some [(''page'', PInt 1), (''limit'', PInt 20)]]"
  by (simp add: list_tasks_sends build_request_def list_tasks_params_def no_filters_def
      given_str_def given_int_def given_list_def given_dt_def)

text \<open>
  C7, as the code has it. A \<open>project_id\<close> that is not the empty string is put in the
  query mapping unchanged under the name \<open>project_ids\<close>; an empty or missing one adds
  nothing; the mapping never has an entry named \<open>project_id\<close>.
\<close>

theorem project_id_sent_as_project_ids:
  "\<exists>q ps. snd (list_tasks rt c sent a) = sent @ [q] \<and> req_params q = Some ps \<and>
     map_of ps ''project_ids'' =
       (case lt_project_id a of None \<Rightarrow> None
        | Some p \<Rightarrow> if p = [] then None else Some (PStr p)) \<and>
     map_of ps ''project_id'' = None"
  by (simp add: list_tasks_sends build_request_def params_project_ids params_project_id)

text \<open>
  C7 as stated fails: \<open>list_tasks(project_id="p1")\<close> sends
  \<open>{page: 1, limit: 20, project_ids: "p1"}\<close>, which has no entry \<open>project_id\<close>.
\<close>

theorem project_id_key_counterexample:
  "map req_params
     (snd (list_tasks (fixed_runtime ok_empty) demo_client []
        (no_filters\<lparr>lt_project_id := Some ''p1''\<rparr>)))
   = [Some [(''page'', PInt 1), (''limit'', PInt 20), (''project_ids'', PStr ''p1'')]]"
  by (simp add: list_tasks_sends build_request_def list_tasks_params_def no_filters_def
      given_str_def given_int_def given_list_def given_dt_def)

subsection \<open>The body of \<open>create_task\<close>\<close>

lemma create_task_sends:
  "snd (create_task rt c sent a) =
     sent @ [build_request c ''POST'' ''/tasks'' None
               (Some (PDict (create_task_data (isoformat rt) a)))]"
  by (simp add: create_task_def client_request_sent)

lemma data_title:
  "map_of (create_task_data f a) ''title'' = Some (PStr (ct_title a))"
  by (simp add: create_task_data_def Let_def map_of_cond_update)

lemma data_priority:
  "map_of (create_task_data f a) ''priority'' =
     Some (PInt (case ct_priority a of None \<Rightarrow> 3 | Some p \<Rightarrow> p))"
  by (simp add: create_task_data_def Let_def map_of_cond_update)

lemma data_description:
  "map_of (create_task_data f a) ''description'' =
     (case ct_description a of None \<Rightarrow> None
      | Some s \<Rightarrow> if s = [] then None else Some (PStr s))"
  by (cases "ct_description a")
     (simp_all add: create_task_data_def Let_def map_of_cond_update given_str_def)

lemma data_dueDate:
  "map_of (create_task_data f a) ''dueDate'' =
     (case ct_due_date a of None \<Rightarrow> None | Some t \<Rightarrow> Some (PStr (f t)))"
  by (cases "ct_due_date a")
     (simp_all add: create_task_data_def Let_def map_of_cond_update given_dt_def)

lemma data_projectId:
  "map_of (create_task_data f a) ''projectId'' =
     (case ct_project_id a of None \<Rightarrow> None
      | Some p \<Rightarrow> if p = [] then None else Some (PStr p))"
  by (cases "ct_project_id a")
     (simp_all add: create_task_data_def Let_def map_of_cond_update given_str_def)

lemma data_tagIds:
  "map_of (create_task_data f a) ''tagIds'' =
     (case ct_tag_ids a of None \<Rightarrow> None
      | Some ts \<Rightarrow> if ts = [] then None else Some (PList (map PStr ts)))"
  by (cases "ct_tag_ids a")
     (simp_all add: create_task_data_def Let_def map_of_cond_update given_list_def)

lemma fst_set_cond_update:
  "fst ` set (if b then AList.update k v al else al) \<subseteq> insert k (fst ` set al)"
proof -
  have "set (map fst (AList.update k v al)) \<subseteq> insert k (set (map fst al))"
    unfolding update_keys by auto
  then show ?thesis by (cases b) auto
qed

lemma data_keys:
  "fst ` set (create_task_data f a) \<subseteq>
     {''tagIds'', ''projectId'', ''dueDate'', ''description'', ''title'', ''priority''}"
proof -
  define d0 where "d0 = [(''title'', PStr (ct_title a)),
     (''priority'', PInt (case ct_priority a of None \<Rightarrow> 3 | Some p \<Rightarrow> p))]"
  define d1 where "d1 = (if given_str (ct_description a)
     then AList.update ''description'' (PStr (the (ct_description a))) d0 else d0)"
  define d2 where "d2 = (if given_dt (ct_due_date a)
     then AList.update ''dueDate'' (PStr (f (the (ct_due_date a)))) d1 else d1)"
  define d3 where "d3 = (if given_str (ct_project_id a)
     then AList.update ''projectId'' (PStr (the (ct_project_id a))) d2 else d2)"
  define d4 where "d4 = (if given_list (ct_tag_ids a)
     then AList.update ''tagIds'' (PList (map PStr (the (ct_tag_ids a)))) d3 else d3)"
  have e: "create_task_data f a = d4"
    by (simp add: create_task_data_def Let_def d0_def d1_def d2_def d3_def d4_def)
  have k0: "fst ` set d0 \<subseteq> {''title'', ''priority''}"
    by (simp add: d0_def)
  have k1: "fst ` set d1 \<subseteq> insert ''description'' (fst ` set d0)"
    unfolding d1_def by (rule fst_set_cond_update)
  have k2: "fst ` set d2 \<subseteq> insert ''dueDate'' (fst ` set d1)"
    unfolding d2_def by (rule fst_set_cond_update)
  have k3: "fst ` set d3 \<subseteq> insert ''projectId'' (fst ` set d2)"
    unfolding d3_def by (rule fst_set_cond_update)
  have k4: "fst ` set d4 \<subseteq> insert ''tagIds'' (fst ` set d3)"
    unfolding d4_def by (rule fst_set_cond_update)
  note s1 = order_trans [OF k1 insert_mono [OF k0]]
  note s2 = order_trans [OF k2 insert_mono [OF s1]]
  note s3 = order_trans [OF k3 insert_mono [OF s2]]
  note s4 = order_trans [OF k4 insert_mono [OF s3]]
  from s4 show ?thesis unfolding e .
qed

text \<open>
  C8, as the code has it. The body of the request always has \<open>title\<close> and
  \<open>priority\<close> (3 when not passed); \<open>description\<close> and \<open>projectId\<close> are there
  exactly when the caller passed a string that is not empty, \<open>tagIds\<close> exactly when
  the caller passed a list that is not empty, \<open>dueDate\<close> exactly when the caller
  passed a timestamp; the body has no other field, so what is left out is absent and
  not null.
\<close>

theorem create_task_body_by_truthiness:
  "\<exists>q d. snd (create_task rt c sent a) = sent @ [q] \<and> req_json q = Some (PDict d) \<and>
     map_of d ''title'' = Some (PStr (ct_title a)) \<and>
     map_of d ''priority'' = Some (PInt (case ct_priority a of None \<Rightarrow> 3 | Some p \<Rightarrow> p)) \<and>
     map_of d ''description'' =
       (case ct_description a of None \<Rightarrow> None
        | Some s \<Rightarrow> if s = [] then None else Some (PStr s)) \<and>
     map_of d ''dueDate'' =
       (case ct_due_date a of None \<Rightarrow> None | Some t \<Rightarrow> Some (PStr (isoformat rt t))) \<and>
     map_of d ''projectId'' =
       (case ct_project_id a of None \<Rightarrow> None
        | Some p \<Rightarrow> if p = [] then None else Some (PStr p)) \<and>
     map_of d ''tagIds'' =
       (case ct_tag_ids a of None \<Rightarrow> None
        | Some ts \<Rightarrow> if ts = [] then None else Some (PList (map PStr ts))) \<and>
     fst ` set d \<subseteq>
       {''tagIds'', ''projectId'', ''dueDate'', ''description'', ''title'', ''priority''}"
proof -
  let ?d = "create_task_data (isoformat rt) a"
  let ?q = "build_request c ''POST'' ''/tasks'' None (Some (PDict ?d))"
  have "snd (create_task rt c sent a) = sent @ [?q]"
    by (rule create_task_sends)
  moreover have "req_json ?q = Some (PDict ?d)"
    by (simp add: build_request_def)
  ultimately show ?thesis
    using data_title [of "isoformat rt" a] data_priority [of "isoformat rt" a]
      data_description [of "isoformat rt" a] data_dueDate [of "isoformat rt" a]
      data_projectId [of "isoformat rt" a] data_tagIds [of "isoformat rt" a]
      data_keys [of "isoformat rt" a]
    by blast
qed

text \<open>
  C8 as stated fails: \<open>create_task("Buy milk", description="")\<close> sends the body
  \<open>{title: "Buy milk", priority: 3}\<close>; the empty description that was supplied is
  not in it.
\<close>

theorem empty_description_dropped_counterexample:
  "map req_json
     (snd (create_task (fixed_runtime ok_empty) demo_client []
        ((only_title ''Buy milk'')\<lparr>ct_description := Some []\<rparr>)))
   = [Some (PDict [(''title'', PStr ''Buy milk''), (''priority'', PInt 3)])]"
  by (simp add: create_task_sends build_request_def create_task_data_def only_title_def
      given_str_def given_list_def given_dt_def)

subsection \<open>Batch operations\<close>

lemma batch_complete_sends:
  "snd (batch_complete rt c sent ids) =
     sent @ [build_request c ''POST'' ''/batch'' None
       (Some (PDict [(''operations'',
          PList (map (\<lambda>tid. PDict [(''action'', PStr ''complete''), (''taskId'', PStr tid)]) ids))]))]"
  by (simp add: batch_complete_def client_request_sent)

lemma batch_delete_sends:
  "snd (batch_delete rt c sent ids) =
     sent @ [build_request c ''POST'' ''/batch'' None
       (Some (PDict [(''operations'',
          PList (map (\<lambda>tid. PDict [(''action'', PStr ''delete''), (''taskId'', PStr tid)]) ids))]))]"
  by (simp add: batch_delete_def client_request_sent)

text \<open>
  C6. \<open>batch_complete\<close> and \<open>batch_delete\<close> send a single POST request to
  \<open>/batch\<close> whose \<open>operations\<close> list has one entry per task id, in the order of
  the ids, the entry at position \<open>k\<close> being \<open>{action, taskId: ids[k]}\<close>.
\<close>

theorem batch_operations_in_order:
  "(\<exists>q ops. snd (batch_complete rt c sent ids) = sent @ [q] \<and>
      req_method q = ''POST'' \<and> req_url q = base_url c @ ''/batch'' \<and>
      req_json q = Some (PDict [(''operations'', PList ops)]) \<and>
      length ops = length ids \<and>
      (\<forall>k < length ids.
         ops ! k = PDict [(''action'', PStr ''complete''), (''taskId'', PStr (ids ! k))]))
   \<and> (\<exists>q ops. snd (batch_delete rt c sent ids) = sent @ [q] \<and>
      req_method q = ''POST'' \<and> req_url q = base_url c @ ''/batch'' \<and>
      req_json q = Some (PDict [(''operations'', PList ops)]) \<and>
      length ops = length ids \<and>
      (\<forall>k < length ids.
         ops ! k = PDict [(''action'', PStr ''delete''), (''taskId'', PStr (ids ! k))]))"
  by (simp add: batch_complete_sends batch_delete_sends build_request_def lstrip_slash_def)

text \<open>For the ids \<open>t1, t2, t3\<close> and the action \<open>complete\<close> that is the list
  \<open>[{complete, t1}, {complete, t2}, {complete, t3}]\<close>.\<close>

theorem batch_operations_in_order_witness:
  "\<exists>q. snd (batch_complete (fixed_runtime ok_empty) demo_client [] [''t1'', ''t2'', ''t3'']) = [q] \<and>
     req_json q = Some (PDict [(''operations'', PList
       [PDict [(''action'', PStr ''complete''), (''taskId'', PStr ''t1'')],
        PDict [(''action'', PStr ''complete''), (''taskId'', PStr ''t2'')],
        PDict [(''action'', PStr ''complete''), (''taskId'', PStr ''t3'')]])])"
proof -
  let ?ids = "[''t1'', ''t2'', ''t3'']"
  let ?want = "[PDict [(''action'', PStr ''complete''), (''taskId'', PStr ''t1'')],
        PDict [(''action'', PStr ''complete''), (''taskId'', PStr ''t2'')],
        PDict [(''action'', PStr ''complete''), (''taskId'', PStr ''t3'')]]"
  from batch_operations_in_order [of "fixed_runtime ok_empty" demo_client "[]" ?ids]
  obtain q ops where s: "snd (batch_complete (fixed_runtime ok_empty) demo_client [] ?ids) = [q]"
    and j: "req_json q = Some (PDict [(''operations'', PList ops)])"
    and l: "length ops = length ?ids"
    and n: "\<forall>k < length ?ids.
         ops ! k = PDict [(''action'', PStr ''complete''), (''taskId'', PStr (?ids ! k))]"
    by auto
  have "ops = ?want"
  proof (rule nth_equalityI)
    show "length ops = length ?want" using l by simp
  next
    fix i assume "i < length ops"
    with l have "i < length ?ids" by simp
    with n have "ops ! i = PDict [(''action'', PStr ''complete''), (''taskId'', PStr (?ids ! i))]"
      by blast
    moreover from \<open>i < length ?ids\<close> have "i = 0 \<or> i = 1 \<or> i = 2" by auto
    ultimately show "ops ! i = ?want ! i" by auto
  qed
  with s j show ?thesis by simp
qed

text \<open>
  C4, as the code has it. An empty list of task ids is not rejected: the method sends
  one POST request to \<open>/batch\<close> with an empty \<open>operations\<close> list, and its outcome is
  that of the envelope the service answers with.
\<close>

theorem empty_batch_is_submitted:
  "snd (batch_complete rt c sent []) =
     sent @ [build_request c ''POST'' ''/batch'' None (Some (PDict [(''operations'', PList [])]))]
   \<and> snd (batch_delete rt c sent []) =
     sent @ [build_request c ''POST'' ''/batch'' None (Some (PDict [(''operations'', PList [])]))]
   \<and> fst (batch_complete rt c sent []) =
     (case service rt sent
             (build_request c ''POST'' ''/batch'' None (Some (PDict [(''operations'', PList [])]))) of
        Inl ex \<Rightarrow> Inl ex | Inr d \<Rightarrow> unwrap d)
   \<and> fst (batch_delete rt c sent []) =
     (case service rt sent
             (build_request c ''POST'' ''/batch'' None (Some (PDict [(''operations'', PList [])]))) of
        Inl ex \<Rightarrow> Inl ex | Inr d \<Rightarrow> unwrap d)"
  by (simp add: batch_complete_sends batch_delete_sends)
     (simp add: batch_complete_def batch_delete_def client_request_result)

text \<open>
  C4 as stated fails: \<open>batch_complete([])\<close> and \<open>batch_delete([])\<close> each submit a
  request, and return the service's data instead of raising a usage error.
\<close>

theorem empty_batch_counterexample:
  "batch_complete (fixed_runtime ok_empty) demo_client [] [] =
     (Inr (PDict []),
      [\<lparr> req_method = ''POST'', req_url = ''https://example.com/api/v1/batch'',
          req_headers = [(''Authorization'', ''Bearer old-token''),
                         (''Content-Type'', ''application/json'')],
          req_params = None,
          req_json = Some (PDict [(''operations'', PList [])]) \<rparr>])
   \<and> batch_delete (fixed_runtime ok_empty) demo_client [] [] =
     (Inr (PDict []),
      [\<lparr> req_method = ''POST'', req_url = ''https://example.com/api/v1/batch'',
          req_headers = [(''Authorization'', ''Bearer old-token''),
                         (''Content-Type'', ''application/json'')],
          req_params = None,
          req_json = Some (PDict [(''operations'', PList [])]) \<rparr>])"
  by (simp add: batch_complete_def batch_delete_def client_request_def build_request_def
      fixed_runtime_def fixed_service_def ok_empty_def unwrap_def demo_client_def init_def
      rstrip_slash_def lstrip_slash_def Let_def)

subsection \<open>The credential\<close>

text \<open>A call other than \<open>refresh_token\<close> leaves the client as it is; so does any
  sequence of such calls, and each of them sends the client's headers.\<close>

lemma perform_step:
  "call \<noteq> RefreshToken \<Longrightarrow>
   \<exists>r q. perform rt call c sent = (r, c, sent @ [q]) \<and> req_headers q = session_headers c"
proof -
  assume n: "call \<noteq> RefreshToken"
  from perform_one_request [of rt call c sent]
  obtain q where q: "snd (snd (perform rt call c sent)) = sent @ [q]"
    "req_headers q = session_headers c" by blast
  from perform_keeps_client [OF n, of rt c sent]
  have k: "fst (snd (perform rt call c sent)) = c" .
  have "perform rt call c sent = (fst (perform rt call c sent), c, sent @ [q])"
    using q(1) k by (cases "perform rt call c sent") simp
  with q(2) show ?thesis by blast
qed

text \<open>A call sends one request with the client's headers, and the client is the
  same afterwards unless the call is a \<open>refresh_token\<close> that returned.\<close>

lemma perform_shape:
  "\<exists>r c2 q. perform rt call c sent = (r, c2, sent @ [q]) \<and>
      req_headers q = session_headers c \<and>
      (c2 = c \<or> (call = RefreshToken \<and> \<not> isl r))"
proof (cases "call = RefreshToken")
  case False
  from perform_step [OF False, of rt c sent] show ?thesis by blast
next
  case True
  obtain r c2 s2 where p: "refresh_token rt c sent = (r, c2, s2)"
    by (cases "refresh_token rt c sent") auto
  from refresh_token_sent [of rt c sent] p
  have s: "s2 = sent @ [build_request c ''POST'' ''/auth/refresh'' None None]" by simp
  have k: "c2 = c \<or> \<not> isl r"
  proof (cases r)
    case (Inl ex)
    with p refresh_token_failure_keeps [of rt c sent ex] show ?thesis by simp
  next
    case (Inr v)
    then show ?thesis by simp
  qed
  from p s k True show ?thesis by (auto simp: build_request_def)
qed

lemma run_shape:
  "\<exists>rs c2 qs. run rt cs c sent = (rs, c2, sent @ qs) \<and>
      length rs = length cs \<and> length qs = length cs"
proof (induction cs arbitrary: c sent)
  case Nil
  show ?case by simp
next
  case (Cons x xs)
  from perform_shape [of rt x c sent]
  obtain r c' q where p: "perform rt x c sent = (r, c', sent @ [q])" by blast
  from Cons.IH [of c' "sent @ [q]"]
  obtain rs c2 qs where r: "run rt xs c' (sent @ [q]) = (rs, c2, (sent @ [q]) @ qs)"
    and l: "length rs = length xs" "length qs = length xs" by blast
  from p r have "run rt (x # xs) c sent = (r # rs, c2, sent @ (q # qs))" by simp
  with l show ?case by (intro exI [of _ "r # rs"] exI [of _ c2] exI [of _ "q # qs"]) simp
qed

text \<open>
  In a sequence of calls, every call sends the \<open>Authorization\<close> header the client
  started with, as long as no \<open>refresh_token\<close> earlier in the sequence has returned.
\<close>

lemma run_headers:
  assumes "map_of (session_headers c) ''Authorization'' = Some h"
    and "run rt cs c sent = (rs, c2, sent2)"
  shows "\<exists>qs. sent2 = sent @ qs \<and> length qs = length cs \<and> length rs = length cs \<and>
     (\<forall>k < length cs.
        (\<forall>j < k. cs ! j = RefreshToken \<longrightarrow> isl (rs ! j)) \<longrightarrow>
        map_of (req_headers (qs ! k)) ''Authorization'' = Some h)"
  using assms(2)
proof (induction cs arbitrary: sent rs c2 sent2)
  case Nil
  then show ?case by simp
next
  case (Cons x xs)
  from perform_shape [of rt x c sent]
  obtain r c' q where p: "perform rt x c sent = (r, c', sent @ [q])"
    and hq: "req_headers q = session_headers c"
    and k: "c' = c \<or> (x = RefreshToken \<and> \<not> isl r)" by blast
  from run_shape [of rt xs c' "sent @ [q]"]
  obtain rs' c2' qs' where r: "run rt xs c' (sent @ [q]) = (rs', c2', (sent @ [q]) @ qs')"
    and l: "length rs' = length xs" "length qs' = length xs" by blast
  from p r Cons.prems have e: "rs = r # rs'" "sent2 = sent @ (q # qs')"
    by simp_all
  have "\<forall>n < length (x # xs).
        (\<forall>j < n. (x # xs) ! j = RefreshToken \<longrightarrow> isl ((r # rs') ! j)) \<longrightarrow>
        map_of (req_headers ((q # qs') ! n)) ''Authorization'' = Some h"
  proof (intro allI impI)
    fix n
    assume n: "n < length (x # xs)"
      and a: "\<forall>j < n. (x # xs) ! j = RefreshToken \<longrightarrow> isl ((r # rs') ! j)"
    show "map_of (req_headers ((q # qs') ! n)) ''Authorization'' = Some h"
    proof (cases n)
      case 0
      with hq assms(1) show ?thesis by simp
    next
      case (Suc m)
      with a have "x = RefreshToken \<longrightarrow> isl r" by auto
      with k have same: "c' = c" by blast
      from Cons.IH [OF r [unfolded same]]
      obtain qs where q1: "(sent @ [q]) @ qs' = (sent @ [q]) @ qs"
        and q2: "\<forall>k < length xs.
           (\<forall>j < k. xs ! j = RefreshToken \<longrightarrow> isl (rs' ! j)) \<longrightarrow>
           map_of (req_headers (qs ! k)) ''Authorization'' = Some h" by blast
      from q1 have qq: "qs = qs'" by simp
      from n Suc have m: "m < length xs" by simp
      have "\<forall>j < m. xs ! j = RefreshToken \<longrightarrow> isl (rs' ! j)"
      proof (intro allI impI)
        fix j assume "j < m" and "xs ! j = RefreshToken"
        with a Suc have "isl ((r # rs') ! Suc j)" by auto
        then show "isl (rs' ! j)" by simp
      qed
      with q2 m qq have "map_of (req_headers (qs' ! m)) ''Authorization'' = Some h"
        by blast
      with Suc show ?thesis by simp
    qed
  qed
  with e l show ?case by (intro exI [of _ "q # qs'"]) simp
qed

text \<open>What \<open>refresh_token\<close> does when the body answering its request is a success
  envelope whose \<open>data\<close> carries \<open>token\<close>.\<close>

lemma refresh_token_on_success:
  assumes "service rt sent (build_request c ''POST'' ''/auth/refresh'' None None) = Inr (PDict body)"
    and "truthy (case map_of body ''success'' of None \<Rightarrow> PNone | Some v \<Rightarrow> v)"
    and "map_of body ''data'' = Some (PDict d)"
    and "map_of d ''token'' = Some tok"
  shows "refresh_token rt c sent =
     (Inr tok,
      c\<lparr>session_headers :=
          AList.update ''Authorization'' (''Bearer '' @ format_value (str_of rt) tok)
            (session_headers c)\<rparr>,
      sent @ [build_request c ''POST'' ''/auth/refresh'' None None])"
  using assms by (simp add: refresh_token_def client_request_def unwrap_def Let_def)

text \<open>
  C5. When the service answers the request of \<open>refresh_token\<close> with a success
  envelope whose \<open>data\<close> carries a token, \<open>refresh_token\<close> returns that token and
  replaces the \<open>Authorization\<close> header of the session by \<open>Bearer\<close> and that token.
  Every call made on the client afterwards, with whatever service, sends one request,
  and that request has the header with the new token and no other, for as long as no
  later \<open>refresh_token\<close> has returned (and replaced the token again).
\<close>

theorem refresh_then_calls_use_new_token:
  assumes "service rt sent (build_request c ''POST'' ''/auth/refresh'' None None) = Inr (PDict body)"
    and "truthy (case map_of body ''success'' of None \<Rightarrow> PNone | Some v \<Rightarrow> v)"
    and "map_of body ''data'' = Some (PDict d)"
    and "map_of d ''token'' = Some tok"
  shows "\<exists>c1 sent1.
     refresh_token rt c sent = (Inr tok, c1, sent1) \<and>
     c1 = c\<lparr>session_headers :=
             AList.update ''Authorization'' (''Bearer '' @ format_value (str_of rt) tok)
               (session_headers c)\<rparr> \<and>
     sent1 = sent @ [build_request c ''POST'' ''/auth/refresh'' None None] \<and>
     (\<forall>rt' cs rs c2 sent2.
        run rt' cs c1 sent1 = (rs, c2, sent2) \<longrightarrow>
        (\<exists>qs. sent2 = sent1 @ qs \<and> length qs = length cs \<and> length rs = length cs \<and>
           (\<forall>k < length cs.
              (\<forall>j < k. cs ! j = RefreshToken \<longrightarrow> isl (rs ! j)) \<longrightarrow>
              map_of (req_headers (qs ! k)) ''Authorization'' =
                Some (''Bearer '' @ format_value (str_of rt) tok) \<and>
              (\<forall>old. old \<noteq> format_value (str_of rt) tok \<longrightarrow>
                 map_of (req_headers (qs ! k)) ''Authorization'' \<noteq> Some (''Bearer '' @ old)))))"
proof -
  let ?h = "''Bearer '' @ format_value (str_of rt) tok"
  let ?c1 = "c\<lparr>session_headers := AList.update ''Authorization'' ?h (session_headers c)\<rparr>"
  let ?s1 = "sent @ [build_request c ''POST'' ''/auth/refresh'' None None]"
  have r: "refresh_token rt c sent = (Inr tok, ?c1, ?s1)"
    by (rule refresh_token_on_success [OF assms])
  have h: "map_of (session_headers ?c1) ''Authorization'' = Some ?h"
    by (simp add: update_conv')
  have "\<exists>qs. sent2 = ?s1 @ qs \<and> length qs = length cs \<and> length rs = length cs \<and>
           (\<forall>k < length cs.
              (\<forall>j < k. cs ! j = RefreshToken \<longrightarrow> isl (rs ! j)) \<longrightarrow>
              map_of (req_headers (qs ! k)) ''Authorization'' = Some ?h \<and>
              (\<forall>old. old \<noteq> format_value (str_of rt) tok \<longrightarrow>
                 map_of (req_headers (qs ! k)) ''Authorization'' \<noteq> Some (''Bearer '' @ old)))"
    if "run rt' cs ?c1 ?s1 = (rs, c2, sent2)" for rt' :: "'b runtime" and cs rs c2 sent2
  proof -
    from run_headers [OF h that]
    obtain qs where q: "sent2 = ?s1 @ qs" "length qs = length cs" "length rs = length cs"
      and a: "\<forall>k < length cs.
        (\<forall>j < k. cs ! j = RefreshToken \<longrightarrow> isl (rs ! j)) \<longrightarrow>
        map_of (req_headers (qs ! k)) ''Authorization'' = Some ?h" by blast
    from a have "\<forall>k < length cs.
        (\<forall>j < k. cs ! j = RefreshToken \<longrightarrow> isl (rs ! j)) \<longrightarrow>
        map_of (req_headers (qs ! k)) ''Authorization'' = Some ?h \<and>
        (\<forall>old. old \<noteq> format_value (str_of rt) tok \<longrightarrow>
           map_of (req_headers (qs ! k)) ''Authorization'' \<noteq> Some (''Bearer '' @ old))"
      by simp
    with q show ?thesis by blast
  qed
  with r show ?thesis by blast
qed

text \<open>
  A client holding \<open>old-token\<close> refreshes against a service that answers with
  \<open>new-token\<close>: the refresh request itself still carries \<open>old-token\<close>, the client
  then holds \<open>new-token\<close>, and the three calls that follow, the second of them a
  \<open>refresh_token\<close> that raises, all send \<open>Bearer new-token\<close>.
\<close>

theorem refresh_then_calls_use_new_token_witness:
  "refresh_token (fixed_runtime ok_token) demo_client [] =
     (Inr (PStr ''new-token''),
      \<lparr> base_url = ''https://example.com/api/v1'',
        session_headers = [(''Authorization'', ''Bearer new-token''),
                           (''Content-Type'', ''application/json'')] \<rparr>,
      [\<lparr> req_method = ''POST'', req_url = ''https://example.com/api/v1/auth/refresh'',
         req_headers = [(''Authorization'', ''Bearer old-token''),
                        (''Content-Type'', ''application/json'')],
         req_params = None, req_json = None \<rparr>])
   \<and> (\<exists>rs c2 q0 q1 q2 q3.
        run (fixed_runtime ok_empty) [GetTodayTasks, RefreshToken, ListTags]
          \<lparr> base_url = ''https://example.com/api/v1'',
            session_headers = [(''Authorization'', ''Bearer new-token''),
                               (''Content-Type'', ''application/json'')] \<rparr>
          [\<lparr> req_method = ''POST'', req_url = ''https://example.com/api/v1/auth/refresh'',
             req_headers = [(''Authorization'', ''Bearer old-token''),
                            (''Content-Type'', ''application/json'')],
             req_params = None, req_json = None \<rparr>]
        = (rs, c2, [q0, q1, q2, q3]) \<and>
        map_of (req_headers q1) ''Authorization'' = Some ''Bearer new-token'' \<and>
        map_of (req_headers q2) ''Authorization'' = Some ''Bearer new-token'' \<and>
        map_of (req_headers q3) ''Authorization'' = Some ''Bearer new-token'')"
proof -
  let ?c1 = "\<lparr> base_url = ''https://example.com/api/v1'',
        session_headers = [(''Authorization'', ''Bearer new-token''),
                           (''Content-Type'', ''application/json'')] \<rparr>"
  let ?q0 = "\<lparr> req_method = ''POST'', req_url = ''https://example.com/api/v1/auth/refresh'',
         req_headers = [(''Authorization'', ''Bearer old-token''),
                        (''Content-Type'', ''application/json'')],
         req_params = None, req_json = None \<rparr>"
  let ?cs = "[GetTodayTasks, RefreshToken, ListTags] :: string call list"
  have c0: "demo_client\<lparr>session_headers :=
       AList.update ''Authorization''
         (''Bearer '' @ format_value (str_of (fixed_runtime ok_token)) (PStr ''new-token''))
         (session_headers demo_client)\<rparr> = ?c1"
    by (simp add: demo_client_def init_def rstrip_slash_def)
  have q0: "build_request demo_client ''POST'' ''/auth/refresh'' None None = ?q0"
    by (simp add: build_request_def demo_client_def init_def rstrip_slash_def lstrip_slash_def)
  have h1: "service (fixed_runtime ok_token) []
        (build_request demo_client ''POST'' ''/auth/refresh'' None None) =
      Inr (PDict [(''success'', PBool True), (''data'', PDict [(''token'', PStr ''new-token'')])])"
    by (simp add: fixed_runtime_def fixed_service_def ok_token_def)
  have h2: "truthy (case map_of [(''success'', PBool True),
         (''data'', PDict [(''token'', PStr ''new-token'')])] ''success'' of
       None \<Rightarrow> PNone | Some v \<Rightarrow> v)"
    by simp
  have h3: "map_of [(''success'', PBool True), (''data'', PDict [(''token'', PStr ''new-token'')])]
       ''data'' = Some (PDict [(''token'', PStr ''new-token'')])"
    by simp
  have h4: "map_of [(''token'', PStr ''new-token'')] ''token'' = Some (PStr ''new-token'')"
    by simp
  from refresh_then_calls_use_new_token [OF h1 h2 h3 h4, where ?'b = string]
  obtain c1 sent1 where r0: "refresh_token (fixed_runtime ok_token) demo_client [] =
        (Inr (PStr ''new-token''), c1, sent1)"
    and c1: "c1 = demo_client\<lparr>session_headers :=
       AList.update ''Authorization''
         (''Bearer '' @ format_value (str_of (fixed_runtime ok_token)) (PStr ''new-token''))
         (session_headers demo_client)\<rparr>"
    and s1: "sent1 = [] @ [build_request demo_client ''POST'' ''/auth/refresh'' None None]"
    and a0: "\<forall>(rt' :: string runtime) cs rs c2 sent2.
        run rt' cs c1 sent1 = (rs, c2, sent2) \<longrightarrow>
        (\<exists>qs. sent2 = sent1 @ qs \<and> length qs = length cs \<and> length rs = length cs \<and>
           (\<forall>k < length cs.
              (\<forall>j < k. cs ! j = RefreshToken \<longrightarrow> isl (rs ! j)) \<longrightarrow>
              map_of (req_headers (qs ! k)) ''Authorization'' =
                Some (''Bearer '' @ format_value (str_of (fixed_runtime ok_token))
                        (PStr ''new-token'')) \<and>
              (\<forall>old. old \<noteq> format_value (str_of (fixed_runtime ok_token)) (PStr ''new-token'') \<longrightarrow>
                 map_of (req_headers (qs ! k)) ''Authorization'' \<noteq> Some (''Bearer '' @ old))))"
    by blast
  from c1 c0 have c1': "c1 = ?c1" by simp
  from s1 q0 have s1': "sent1 = [?q0]" by simp
  from r0 c1' s1' have r: "refresh_token (fixed_runtime ok_token) demo_client [] =
      (Inr (PStr ''new-token''), ?c1, [?q0])" by simp
  obtain rs c2 sent2 where run: "run (fixed_runtime ok_empty) ?cs ?c1 [?q0] = (rs, c2, sent2)"
    by (cases "run (fixed_runtime ok_empty) ?cs ?c1 [?q0]") auto
  have rs1: "isl (rs ! 1)"
    using run
    by (auto simp: get_today_tasks_def list_tags_def keep_def refresh_token_def
        client_request_def fixed_runtime_def fixed_service_def ok_empty_def unwrap_def Let_def
        split: prod.splits)
  from run c1' s1' have "run (fixed_runtime ok_empty) ?cs c1 sent1 = (rs, c2, sent2)"
    by simp
  with a0 obtain qs where s: "sent2 = sent1 @ qs" and l: "length qs = length ?cs"
    and k: "\<forall>k < length ?cs.
              (\<forall>j < k. ?cs ! j = RefreshToken \<longrightarrow> isl (rs ! j)) \<longrightarrow>
              map_of (req_headers (qs ! k)) ''Authorization'' =
                Some (''Bearer '' @ format_value (str_of (fixed_runtime ok_token))
                        (PStr ''new-token'')) \<and>
              (\<forall>old. old \<noteq> format_value (str_of (fixed_runtime ok_token)) (PStr ''new-token'') \<longrightarrow>
                 map_of (req_headers (qs ! k)) ''Authorization'' \<noteq> Some (''Bearer '' @ old))"
    by blast
  from l obtain q1 q2 q3 where qs: "qs = [q1, q2, q3]"
    by (auto simp: length_Suc_conv numeral_3_eq_3)
  let ?h = "Some (''Bearer '' @ format_value (str_of (fixed_runtime ok_token)) (PStr ''new-token''))"
  have j0: "\<forall>j < (0::nat). ?cs ! j = RefreshToken \<longrightarrow> isl (rs ! j)" by simp
  have j1: "\<forall>j < Suc 0. ?cs ! j = RefreshToken \<longrightarrow> isl (rs ! j)" by simp
  have j2: "\<forall>j < Suc (Suc 0). ?cs ! j = RefreshToken \<longrightarrow> isl (rs ! j)"
    using rs1 by (auto simp: less_Suc_eq)
  have n0: "0 < length ?cs" and n1: "Suc 0 < length ?cs" and n2: "Suc (Suc 0) < length ?cs"
    by simp_all
  from k n0 j0 have "map_of (req_headers (qs ! 0)) ''Authorization'' = ?h" by blast
  with qs have a1: "map_of (req_headers q1) ''Authorization'' = Some ''Bearer new-token''"
    by (simp add: fixed_runtime_def)
  from k n1 j1 have "map_of (req_headers (qs ! Suc 0)) ''Authorization'' = ?h" by blast
  with qs have a2: "map_of (req_headers q2) ''Authorization'' = Some ''Bearer new-token''"
    by (simp add: fixed_runtime_def)
  from k n2 j2 have "map_of (req_headers (qs ! Suc (Suc 0))) ''Authorization'' = ?h" by blast
  with qs have a3: "map_of (req_headers q3) ''Authorization'' = Some ''Bearer new-token''"
    by (simp add: fixed_runtime_def)
  from s s1' qs have "sent2 = [?q0, q1, q2, q3]" by simp
  with r run a1 a2 a3 show ?thesis by blast
qed

text \<open>
  C10. When \<open>refresh_token\<close> raises, whether from a failed envelope, from a success
  payload without \<open>token\<close>, or from the transport, the client is unchanged: whatever
  call follows sends the headers the client had before.
\<close>

theorem failed_refresh_keeps_token:
  assumes "refresh_token rt c sent = (Inl ex, c1, sent1)"
  shows "c1 = c \<and>
     (\<forall>call. \<exists>q. snd (snd (perform rt' call c1 sent1)) = sent1 @ [q] \<and>
        req_headers q = session_headers c)"
proof -
  from assms have "fst (refresh_token rt c sent) = Inl ex"
    and "c1 = fst (snd (refresh_token rt c sent))" by simp_all
  with refresh_token_failure_keeps [of rt c sent ex] have "c1 = c" by simp
  then show ?thesis using perform_one_request [of rt' _ c sent1] by simp
qed

text \<open>Both ways of failing, on a client holding \<open>old-token\<close>.\<close>

theorem failed_refresh_keeps_token_witness:
  "refresh_token (fixed_runtime failed_with_details) demo_client [] =
     (Inl (TodoMeError (PStr ''UNKNOWN_ERROR'') (PStr ''Unknown error'')
             (PDict [(''field'', PStr ''email'')])),
      demo_client, [build_request demo_client ''POST'' ''/auth/refresh'' None None])
   \<and> refresh_token (fixed_runtime ok_empty) demo_client [] =
     (Inl (KeyError ''token''),
      demo_client, [build_request demo_client ''POST'' ''/auth/refresh'' None None])
   \<and> map_of (session_headers demo_client) ''Authorization'' = Some ''Bearer old-token''"
proof -
  have a: "refresh_token (fixed_runtime failed_with_details) demo_client [] =
     (Inl (TodoMeError (PStr ''UNKNOWN_ERROR'') (PStr ''Unknown error'')
             (PDict [(''field'', PStr ''email'')])),
      fst (snd (refresh_token (fixed_runtime failed_with_details) demo_client [])),
      [build_request demo_client ''POST'' ''/auth/refresh'' None None])"
    by (simp add: refresh_token_def client_request_def fixed_runtime_def fixed_service_def
        failed_with_details_def unwrap_def Let_def)
  have b: "refresh_token (fixed_runtime ok_empty) demo_client [] =
     (Inl (KeyError ''token''),
      fst (snd (refresh_token (fixed_runtime ok_empty) demo_client [])),
      [build_request demo_client ''POST'' ''/auth/refresh'' None None])"
    by (simp add: refresh_token_def client_request_def fixed_runtime_def fixed_service_def
        ok_empty_def unwrap_def Let_def)
  have o: "map_of (session_headers demo_client) ''Authorization'' = Some ''Bearer old-token''"
    by (simp add: demo_client_def init_def)
  from failed_refresh_keeps_token [OF a, of "fixed_runtime ok_empty :: string runtime"]
    failed_refresh_keeps_token [OF b, of "fixed_runtime ok_empty :: string runtime"] a b o
  show ?thesis by simp
qed

end
